theory Spec2Isabelle
  imports Main
begin

section \<open>Constants (src/utils/constants.js)\<close>

text \<open>
  \<open>ROLES\<close> and \<open>SUBSCRIPTION_PLANS\<close> are closed sets of string tags; the schemas
  restrict the stored values to them (\<open>enum: ['admin', 'member']\<close>,
  \<open>enum: ['free', 'pro']\<close>), so they are datatypes here.
\<close>

datatype role = Admin | Member

datatype plan = Free | Pro

definition TOKEN_REQUIRED :: string where
  "TOKEN_REQUIRED = ''Access token is required''"

definition TOKEN_INVALID :: string where
  "TOKEN_INVALID = ''Invalid or expired token''"

definition INVALID_CREDENTIALS :: string where
  "INVALID_CREDENTIALS = ''Invalid email or password''"

definition INSUFFICIENT_PERMISSIONS :: string where
  "INSUFFICIENT_PERMISSIONS = ''Insufficient permissions for this action''"

definition TENANT_NOT_FOUND :: string where
  "TENANT_NOT_FOUND = ''Tenant not found''"

definition INVALID_TENANT :: string where
  "INVALID_TENANT = ''Invalid tenant access''"

definition NOTE_NOT_FOUND :: string where
  "NOTE_NOT_FOUND = ''Note not found''"

definition LIMIT_EXCEEDED :: string where
  "LIMIT_EXCEEDED = ''Note limit exceeded. Upgrade to Pro plan for unlimited notes''"

definition TENANT_UPGRADED :: string where
  "TENANT_UPGRADED = ''Subscription upgraded to Pro successfully''"

definition ALREADY_PRO :: string where
  "ALREADY_PRO = ''Tenant is already on Pro plan''"

definition VALIDATION_FAILED :: string where
  "VALIDATION_FAILED = ''Validation failed''"

definition INVALID_INPUT :: string where
  "INVALID_INPUT = ''Invalid input data provided''"

text \<open>
  A thrown JavaScript error. \<open>Error\<close> is \<open>new Error(message)\<close> of the services;
  \<open>ValidationError\<close> is what a schema validator rejects a document with (it holds the
  message of the validator; the library puts that message behind the name of the path);
  \<open>MongoServerError\<close> is what the store itself refuses (a duplicate key, a negative skip,
  a pattern it cannot compile); \<open>SyntaxError\<close> is what \<open>new RegExp(pattern)\<close> throws.
  \<open>message\<close> is \<open>error.message\<close>.
\<close>

datatype error = Error string | ValidationError string | MongoServerError string | SyntaxError string

fun message :: "error \<Rightarrow> string" where
  "message (Error m) = m"
| "message (ValidationError m) = m"
| "message (MongoServerError m) = m"
| "message (SyntaxError m) = m"

text \<open>What a handler answers: a status with the JSON data, or a status with a failure message.\<close>

datatype 'a reply = Reply nat 'a | Fail nat string

section \<open>Documents (src/models)\<close>

text \<open>
  An \<open>ObjectId\<close> is an opaque identifier, never empty and never falsy; a \<open>null\<close>
  id argument is \<open>None\<close>. A \<open>Date\<close> is its millisecond count.
\<close>

type_synonym oid = nat

type_synonym date = int

record Note =
  note_id :: oid
  tenant_id :: oid
  user_id :: oid
  title :: string
  content :: string
  tags :: "string list"
  is_archived :: bool
  is_deleted :: bool
  created_at :: date
  updated_at :: date

record Tenant =
  t_id :: oid
  slug :: string
  name :: string
  subscription_plan :: plan
  note_limit :: int
  t_is_active :: bool
  t_updated_at :: date

record User =
  u_id :: oid
  u_tenant_id :: oid
  email :: string
  password_hash :: string
  u_role :: role
  u_is_active :: bool
  last_login :: "date option"

text \<open>The three collections of the store, each in its natural (insertion) order.\<close>

record db =
  Notes :: "Note list"
  Tenants :: "Tenant list"
  Users :: "User list"

section \<open>Strings\<close>

text \<open>
  A string is a list of characters, and a character is a code unit below 256 (Latin-1):
  text with a code unit beyond that range is outside this model. In that range
  JavaScript's white space (what \<open>String.prototype.trim\<close> and the validator's
  \<open>trim\<close> strip) is tab, line feed, vertical tab, form feed, carriage
  return, space and the no-break space \<open>U+00A0\<close>.
\<close>

definition whitespace :: "char list" where
  "whitespace = [CHR 0x09, CHR 0x0A, CHR 0x0B, CHR 0x0C, CHR 0x0D, CHR '' '', CHR 0xA0]"

definition is_space :: "char \<Rightarrow> bool" where
  "is_space c = (c \<in> set whitespace)"

text \<open>\<open>trim: true\<close> and \<open>String.prototype.trim\<close>: white space is dropped at both ends.\<close>

definition trim :: "string \<Rightarrow> string" where
  "trim s = rev (dropWhile is_space (rev (dropWhile is_space s)))"

text \<open>
  \<open>lowercase: true\<close> and \<open>toLowerCase\<close>: the letters \<open>A\<close> to \<open>Z\<close> and the Latin-1 capitals
  \<open>U+00C0\<close> to \<open>U+00DE\<close> (without the multiplication sign \<open>U+00D7\<close>) go to their small
  letters, \<open>32\<close> code units above; every other character of the range stays.
\<close>

definition upper_letters :: "char list" where
  "upper_letters = ''ABCDEFGHIJKLMNOPQRSTUVWXYZ'' @
     [CHR 0xC0, CHR 0xC1, CHR 0xC2, CHR 0xC3, CHR 0xC4, CHR 0xC5, CHR 0xC6, CHR 0xC7,
      CHR 0xC8, CHR 0xC9, CHR 0xCA, CHR 0xCB, CHR 0xCC, CHR 0xCD, CHR 0xCE, CHR 0xCF,
      CHR 0xD0, CHR 0xD1, CHR 0xD2, CHR 0xD3, CHR 0xD4, CHR 0xD5, CHR 0xD6,
      CHR 0xD8, CHR 0xD9, CHR 0xDA, CHR 0xDB, CHR 0xDC, CHR 0xDD, CHR 0xDE]"

definition lower_letters :: "char list" where
  "lower_letters = ''abcdefghijklmnopqrstuvwxyz'' @
     [CHR 0xE0, CHR 0xE1, CHR 0xE2, CHR 0xE3, CHR 0xE4, CHR 0xE5, CHR 0xE6, CHR 0xE7,
      CHR 0xE8, CHR 0xE9, CHR 0xEA, CHR 0xEB, CHR 0xEC, CHR 0xED, CHR 0xEE, CHR 0xEF,
      CHR 0xF0, CHR 0xF1, CHR 0xF2, CHR 0xF3, CHR 0xF4, CHR 0xF5, CHR 0xF6,
      CHR 0xF8, CHR 0xF9, CHR 0xFA, CHR 0xFB, CHR 0xFC, CHR 0xFD, CHR 0xFE]"

definition lower_char :: "char \<Rightarrow> char" where
  "lower_char c =
     (case map_of (zip upper_letters lower_letters) c of
        None \<Rightarrow> c
      | Some l \<Rightarrow> l)"

definition toLowerCase :: "string \<Rightarrow> string" where
  "toLowerCase s = map lower_char s"

text \<open>\<open>String.prototype.includes\<close>: the second string occurs in the first.\<close>

fun string_includes :: "string \<Rightarrow> string \<Rightarrow> bool" where
  "string_includes [] sub = (sub = [])"
| "string_includes (c # s) sub = (take (length sub) (c # s) = sub \<or> string_includes s sub)"

section \<open>Collection primitives\<close>

text \<open>
  \<open>Model.findOne(query)\<close> is the first document of the collection that matches
  (\<open>find\<close> of the list library); \<open>Model.countDocuments(query)\<close> counts the matches.
\<close>

definition countDocuments :: "('a \<Rightarrow> bool) \<Rightarrow> 'a list \<Rightarrow> nat" where
  "countDocuments q xs = length (filter q xs)"

text \<open>
  \<open>Model.findOneAndUpdate(query, update, {new: true})\<close>: the first match is replaced by
  its updated version, which is returned; without a match nothing is written and the
  result is \<open>null\<close>.
\<close>

fun findOneAndUpdate :: "('a \<Rightarrow> bool) \<Rightarrow> ('a \<Rightarrow> 'a) \<Rightarrow> 'a list \<Rightarrow> 'a option \<times> 'a list" where
  "findOneAndUpdate q f [] = (None, [])"
| "findOneAndUpdate q f (x # xs) =
     (if q x then (Some (f x), f x # xs)
      else (case findOneAndUpdate q f xs of (r, ys) \<Rightarrow> (r, x # ys)))"

section \<open>The Note schema (src/models/Note.js)\<close>

text \<open>
  A request body or update object, read through the schema: strict mode keeps only the
  paths the schema declares, so the payload is a record of optional schema paths
  (\<open>None\<close>: the key is absent). The \<open>_id\<close> and the two timestamps are written by the
  driver and the timestamps plugin and are no part of a payload here.
\<close>

record payload =
  p_title :: "string option"
  p_content :: "string option"
  p_tags :: "string list option"
  p_is_archived :: "bool option"
  p_is_deleted :: "bool option"
  p_user_id :: "oid option"
  p_tenant_id :: "oid option"

definition empty_payload :: payload where
  "empty_payload = \<lparr>p_title = None, p_content = None, p_tags = None, p_is_archived = None,
     p_is_deleted = None, p_user_id = None, p_tenant_id = None\<rparr>"

text \<open>The setters of the schema: \<open>trim\<close> on title and content, \<open>trim\<close> and \<open>lowercase\<close> on each tag.\<close>

definition cast_payload :: "payload \<Rightarrow> payload" where
  "cast_payload p = p\<lparr>p_title := map_option trim (p_title p),
     p_content := map_option trim (p_content p),
     p_tags := map_option (map (toLowerCase \<circ> trim)) (p_tags p)\<rparr>"

text \<open>
  The validators of the paths a (cast) payload holds: \<open>required\<close> and \<open>maxLength\<close> of
  title and content, \<open>maxLength\<close> of each tag. The result is the message of the first
  validator that fails.
\<close>

definition validate_title :: "string \<Rightarrow> string option" where
  "validate_title s =
     (if s = [] then Some ''Note title is required''
      else if length s > 255 then Some ''Title cannot exceed 255 characters''
      else None)"

definition validate_content :: "string \<Rightarrow> string option" where
  "validate_content s =
     (if s = [] then Some ''Note content is required''
      else if length s > 10000 then Some ''Content cannot exceed 10000 characters''
      else None)"

definition validate_tags :: "string list \<Rightarrow> string option" where
  "validate_tags ts =
     (if list_ex (\<lambda>t. length t > 50) ts then Some ''Tag cannot exceed 50 characters'' else None)"

definition first_error :: "string option list \<Rightarrow> string option" where
  "first_error rs = (case filter (\<lambda>r. r \<noteq> None) rs of [] \<Rightarrow> None | r # _ \<Rightarrow> r)"

definition validate_paths :: "payload \<Rightarrow> string option" where
  "validate_paths p = first_error
     [case p_title p of None \<Rightarrow> None | Some s \<Rightarrow> validate_title s,
      case p_content p of None \<Rightarrow> None | Some s \<Rightarrow> validate_content s,
      case p_tags p of None \<Rightarrow> None | Some ts \<Rightarrow> validate_tags ts]"

text \<open>
  \<open>new Note(obj)\<close> followed by \<open>save()\<close>: the object is cast, the defaults fill the
  absent paths (\<open>tags: []\<close>, \<open>is_archived: false\<close>, \<open>is_deleted: false\<close>, both timestamps
  now), the four required paths must be present and the validators must pass. The new
  \<open>_id\<close> comes from the driver; the store refuses a duplicate \<open>_id\<close>.
\<close>

definition Note_new :: "payload \<Rightarrow> oid \<Rightarrow> date \<Rightarrow> error + Note" where
  "Note_new obj newId now =
     (let p = cast_payload obj in
      case p_tenant_id p of None \<Rightarrow> Inl (ValidationError ''Tenant ID is required'') | Some t \<Rightarrow>
      case p_user_id p of None \<Rightarrow> Inl (ValidationError ''User ID is required'') | Some u \<Rightarrow>
      case p_title p of None \<Rightarrow> Inl (ValidationError ''Note title is required'') | Some ti \<Rightarrow>
      case p_content p of None \<Rightarrow> Inl (ValidationError ''Note content is required'') | Some c \<Rightarrow>
      case validate_paths p of Some msg \<Rightarrow> Inl (ValidationError msg) | None \<Rightarrow>
        Inr \<lparr>note_id = newId, tenant_id = t, user_id = u, title = ti, content = c,
             tags = (case p_tags p of None \<Rightarrow> [] | Some ts \<Rightarrow> ts),
             is_archived = (case p_is_archived p of None \<Rightarrow> False | Some b \<Rightarrow> b),
             is_deleted = (case p_is_deleted p of None \<Rightarrow> False | Some b \<Rightarrow> b),
             created_at = now, updated_at = now\<rparr>)"

definition Note_save :: "Note \<Rightarrow> Note list \<Rightarrow> error + Note list" where
  "Note_save n ns =
     (if note_id n \<in> set (map note_id ns) then Inl (MongoServerError ''E11000 duplicate key error'')
      else Inr (ns @ [n]))"

text \<open>
  An update object applied to a stored note (\<open>$set\<close> of every path it holds, after the
  setters).
\<close>

definition apply_update :: "payload \<Rightarrow> Note \<Rightarrow> Note" where
  "apply_update p n =
     n\<lparr>title := (case p_title p of None \<Rightarrow> title n | Some s \<Rightarrow> s),
       content := (case p_content p of None \<Rightarrow> content n | Some s \<Rightarrow> s),
       tags := (case p_tags p of None \<Rightarrow> tags n | Some ts \<Rightarrow> ts),
       is_archived := (case p_is_archived p of None \<Rightarrow> is_archived n | Some b \<Rightarrow> b),
       is_deleted := (case p_is_deleted p of None \<Rightarrow> is_deleted n | Some b \<Rightarrow> b),
       user_id := (case p_user_id p of None \<Rightarrow> user_id n | Some u \<Rightarrow> u),
       tenant_id := (case p_tenant_id p of None \<Rightarrow> tenant_id n | Some t \<Rightarrow> t)\<rparr>"

section \<open>The notes service (src/services/notesService.js)\<close>


definition checkNoteLimit :: "oid \<Rightarrow> db \<Rightarrow> error option" where
  "checkNoteLimit tenantId d =
     (case find (\<lambda>t. t_id t = tenantId) (Tenants d) of
        None \<Rightarrow> Some (Error TENANT_NOT_FOUND)
      | Some tenant \<Rightarrow>
          if subscription_plan tenant = Pro then None
          else (let noteCount = countDocuments (\<lambda>n. tenant_id n = tenantId \<and> \<not> is_deleted n) (Notes d)
                in if int noteCount \<ge> note_limit tenant then Some (Error LIMIT_EXCEEDED) else None))"

definition createNote :: "payload \<Rightarrow> oid \<Rightarrow> oid \<Rightarrow> oid \<Rightarrow> date \<Rightarrow> db \<Rightarrow> (error + Note) \<times> db" where
  "createNote noteData userId tenantId newId now d =
     (case checkNoteLimit tenantId d of
        Some e \<Rightarrow> (Inl e, d)
      | None \<Rightarrow>
          (case Note_new (noteData\<lparr>p_user_id := Some userId, p_tenant_id := Some tenantId\<rparr>) newId now of
             Inl e \<Rightarrow> (Inl e, d)
           | Inr n \<Rightarrow>
               (case Note_save n (Notes d) of
                  Inl e \<Rightarrow> (Inl e, d)
                | Inr ns \<Rightarrow> (Inr n, d\<lparr>Notes := ns\<rparr>))))"











text \<open>
  The query object shared by \<open>getNoteById\<close>, \<open>updateNote\<close> and \<open>deleteNote\<close>: the id, the
  tenant, not deleted, and the owner when \<open>userId\<close> is given.
\<close>

definition note_query :: "oid \<Rightarrow> oid \<Rightarrow> oid option \<Rightarrow> Note \<Rightarrow> bool" where
  "note_query noteId tenantId userId n =
     (note_id n = noteId \<and> tenant_id n = tenantId \<and> \<not> is_deleted n \<and>
      (case userId of None \<Rightarrow> True | Some u \<Rightarrow> user_id n = u))"


text \<open>
  \<open>updateNote\<close>: with \<open>runValidators\<close> the update object is cast and validated before the
  query runs, so a payload a validator rejects never reaches the store. The update is
  the payload as given, with \<open>updated_at\<close> added.
\<close>

definition updateNote :: "oid \<Rightarrow> payload \<Rightarrow> oid \<Rightarrow> oid option \<Rightarrow> date \<Rightarrow> db \<Rightarrow> (error + Note) \<times> db" where
  "updateNote noteId updateData tenantId userId now d =
     (let upd = cast_payload updateData in
      case validate_paths upd of
        Some msg \<Rightarrow> (Inl (ValidationError msg), d)
      | None \<Rightarrow>
          (case findOneAndUpdate (note_query noteId tenantId userId)
                  (\<lambda>n. (apply_update upd n)\<lparr>updated_at := now\<rparr>) (Notes d) of
             (None, _) \<Rightarrow> (Inl (Error NOTE_NOT_FOUND), d)
           | (Some n, ns) \<Rightarrow> (Inr n, d\<lparr>Notes := ns\<rparr>)))"

definition deleteNote :: "oid \<Rightarrow> oid \<Rightarrow> oid option \<Rightarrow> date \<Rightarrow> db \<Rightarrow> (error + unit) \<times> db" where
  "deleteNote noteId tenantId userId now d =
     (case findOneAndUpdate (note_query noteId tenantId userId)
             (\<lambda>n. n\<lparr>is_deleted := True, updated_at := now\<rparr>) (Notes d) of
        (None, _) \<Rightarrow> (Inl (Error NOTE_NOT_FOUND), d)
      | (Some n, ns) \<Rightarrow> (Inr (), d\<lparr>Notes := ns\<rparr>))"

section \<open>The request identity and the notes handlers (src/middleware/auth.js, routes and controllers)\<close>

text \<open>\<open>req.user\<close>, as \<open>authenticate\<close> sets it.\<close>

record identity =
  i_id :: oid
  i_email :: string
  i_role :: role
  i_tenant_id :: oid
  i_tenant_slug :: string
  i_tenant_subscription :: plan

text \<open>
  \<open>const userId = req.user.role === ROLES.MEMBER ? req.user.id : null\<close>, the same line in
  every single-note handler of the router and of the controller.
\<close>

definition owner_filter :: "identity \<Rightarrow> oid option" where
  "owner_filter u = (if i_role u = Member then Some (i_id u) else None)"

text \<open>
  The validation chains of utils/validation.js for a note body. \<open>createNoteValidation\<close>:
  title and content are trimmed and must then have 1 to 255 and 1 to 10000 characters
  (an absent field counts as the empty string, so both are mandatory); each tag, when
  there are tags, is trimmed and must have at most 50 characters. \<open>updateNoteValidation\<close>
  is the same chain behind the check of the \<open>id\<close> parameter, which an \<open>oid\<close> passes.
  The sanitizers write the trimmed values back into the body.
\<close>

definition isLength :: "string \<Rightarrow> nat \<Rightarrow> nat \<Rightarrow> bool" where
  "isLength s lo hi = (lo \<le> length s \<and> length s \<le> hi)"

definition createNoteValidation :: "payload \<Rightarrow> bool" where
  "createNoteValidation body =
     (isLength (trim (case p_title body of None \<Rightarrow> [] | Some s \<Rightarrow> s)) 1 255 \<and>
      isLength (trim (case p_content body of None \<Rightarrow> [] | Some s \<Rightarrow> s)) 1 10000 \<and>
      (case p_tags body of None \<Rightarrow> True | Some ts \<Rightarrow> list_all (\<lambda>t. isLength (trim t) 0 50) ts))"

definition updateNoteValidation :: "payload \<Rightarrow> bool" where
  "updateNoteValidation body = createNoteValidation body"

definition body_sanitized :: "payload \<Rightarrow> payload" where
  "body_sanitized body = body\<lparr>p_title := map_option trim (p_title body),
     p_content := map_option trim (p_content body),
     p_tags := map_option (map trim) (p_tags body)\<rparr>"

text \<open>
  The \<open>catch\<close> block of the single-note handlers: 404 when the message of the error
  includes \<open>not found\<close>, 400 otherwise, with the message of the error.
\<close>

definition error_status :: "error \<Rightarrow> nat" where
  "error_status e = (if string_includes (message e) ''not found'' then 404 else 400)"

definition note_reply :: "error + 'a \<Rightarrow> 'a reply" where
  "note_reply r = (case r of Inr x \<Rightarrow> Reply 200 x | Inl e \<Rightarrow> Fail (error_status e) (message e))"


definition route_put_note :: "identity \<Rightarrow> oid \<Rightarrow> payload \<Rightarrow> date \<Rightarrow> db \<Rightarrow> Note reply \<times> db" where
  "route_put_note u noteId body now d =
     (if \<not> updateNoteValidation body then (Fail 400 VALIDATION_FAILED, d)
      else (case updateNote noteId (body_sanitized body) (i_tenant_id u) (owner_filter u) now d of
              (r, d') \<Rightarrow> (note_reply r, d')))"


definition route_post_note :: "identity \<Rightarrow> payload \<Rightarrow> oid \<Rightarrow> date \<Rightarrow> db \<Rightarrow> Note reply \<times> db" where
  "route_post_note u body newId now d =
     (if \<not> createNoteValidation body then (Fail 400 VALIDATION_FAILED, d)
      else (case createNote (body_sanitized body) (i_id u) (i_tenant_id u) newId now d of
              (Inr n, d') \<Rightarrow> (Reply 201 n, d')
            | (Inl e, d') \<Rightarrow>
                (Fail (if string_includes (message e) ''limit exceeded'' then 403 else 400) (message e), d')))"

text \<open>
  \<open>NotesController.updateNote\<close> builds the update from four keys of the body only
  (title and content trimmed), and then calls the same service. The validation chain in
  front of a controller is attached by its route; its outcome (\<open>errors.isEmpty()\<close>) is
  the first argument.
\<close>

definition controller_updateData :: "payload \<Rightarrow> payload" where
  "controller_updateData body =
     empty_payload\<lparr>p_title := map_option trim (p_title body),
       p_content := map_option trim (p_content body),
       p_tags := p_tags body,
       p_is_archived := p_is_archived body\<rparr>"

definition controller_updateNote ::
  "bool \<Rightarrow> identity \<Rightarrow> oid \<Rightarrow> payload \<Rightarrow> date \<Rightarrow> db \<Rightarrow> Note reply \<times> db" where
  "controller_updateNote errors_empty u noteId body now d =
     (if \<not> errors_empty then (Fail 400 INVALID_INPUT, d)
      else (case updateNote noteId (controller_updateData body) (i_tenant_id u) (owner_filter u) now d of
              (r, d') \<Rightarrow> (note_reply r, d')))"

section \<open>Example data\<close>



definition note_a :: Note where
  "note_a = \<lparr>note_id = 1, tenant_id = 10, user_id = 100, title = ''plan'', content = ''q3'',
     tags = [], is_archived = False, is_deleted = False, created_at = 5, updated_at = 5\<rparr>"

definition note_b :: Note where
  "note_b = \<lparr>note_id = 2, tenant_id = 20, user_id = 200, title = ''memo'', content = ''hr'',
     tags = [], is_archived = False, is_deleted = False, created_at = 5, updated_at = 5\<rparr>"

definition acme :: Tenant where
  "acme = \<lparr>t_id = 10, slug = ''acme'', name = ''Acme Corporation'', subscription_plan = Free,
     note_limit = 3, t_is_active = True, t_updated_at = 0\<rparr>"

definition globex :: Tenant where
  "globex = \<lparr>t_id = 20, slug = ''globex'', name = ''Globex Corporation'', subscription_plan = Free,
     note_limit = 3, t_is_active = True, t_updated_at = 0\<rparr>"

definition db_ab :: db where
  "db_ab = \<lparr>Notes = [note_a, note_b], Tenants = [acme, globex], Users = []\<rparr>"




definition admin_102 :: identity where
  "admin_102 = \<lparr>i_id = 102, i_email = ''admin@acme.test'', i_role = Admin, i_tenant_id = 10,
     i_tenant_slug = ''acme'', i_tenant_subscription = Free\<rparr>"

definition member_101 :: identity where
  "member_101 = \<lparr>i_id = 101, i_email = ''user@acme.test'', i_role = Member, i_tenant_id = 10,
     i_tenant_slug = ''acme'', i_tenant_subscription = Free\<rparr>"

definition member_100 :: identity where
  "member_100 = \<lparr>i_id = 100, i_email = ''user@acme.test'', i_role = Member, i_tenant_id = 10,
     i_tenant_slug = ''acme'', i_tenant_subscription = Free\<rparr>"

definition body_x :: payload where
  "body_x = empty_payload\<lparr>p_title := Some ''x''\<rparr>"

definition body_xy :: payload where
  "body_xy = empty_payload\<lparr>p_title := Some ''x'', p_content := Some ''y''\<rparr>"

definition body_blank :: payload where
  "body_blank = empty_payload\<lparr>p_title := Some '' ''\<rparr>"

definition body_move :: payload where
  "body_move = empty_payload\<lparr>p_title := Some ''plan'', p_content := Some ''q3'', p_tenant_id := Some 20\<rparr>"

section \<open>Query strings of the listing request\<close>




















definition note_c :: Note where
  "note_c = \<lparr>note_id = 3, tenant_id = 10, user_id = 101, title = ''todo'', content = ''ship'',
     tags = [], is_archived = False, is_deleted = False, created_at = 5, updated_at = 5\<rparr>"





definition note_d :: Note where
  "note_d = \<lparr>note_id = 4, tenant_id = 10, user_id = 101, title = ''later'', content = ''more'',
     tags = [], is_archived = False, is_deleted = False, created_at = 7, updated_at = 7\<rparr>"




section \<open>The subscription middleware (src/middleware/subscriptionCheck.js)\<close>

record noteLimitInfo =
  nl_current_count :: nat
  nl_limit :: int
  nl_remaining :: int
  nl_subscription_plan :: plan

record limit_body =
  lb_message :: string
  lb_current_count :: nat
  lb_limit :: int
  lb_subscription_plan :: plan
  lb_upgrade_required :: bool

text \<open>
  What the middleware does with a request: pass it on (\<open>next()\<close>, with the
  \<open>noteLimitInfo\<close> it attached, if any), refuse it with a status and a message, or
  refuse it with the 403 body that reports the count and the limit.
\<close>

datatype limit_check = Next "noteLimitInfo option" | Refused nat string | LimitReached nat limit_body

definition checkNoteLimit_mw :: "identity option \<Rightarrow> db \<Rightarrow> limit_check" where
  "checkNoteLimit_mw req_user d =
     (case req_user of
        None \<Rightarrow> Refused 401 TOKEN_REQUIRED
      | Some u \<Rightarrow>
          (case find (\<lambda>t. t_id t = i_tenant_id u) (Tenants d) of
             None \<Rightarrow> Refused 400 TENANT_NOT_FOUND
           | Some tenant \<Rightarrow>
               if subscription_plan tenant = Pro then Next None
               else (let noteCount = countDocuments (\<lambda>n. tenant_id n = i_tenant_id u \<and> \<not> is_deleted n) (Notes d)
                     in if int noteCount \<ge> note_limit tenant
                        then LimitReached 403
                               \<lparr>lb_message = LIMIT_EXCEEDED, lb_current_count = noteCount,
                                lb_limit = note_limit tenant,
                                lb_subscription_plan = subscription_plan tenant,
                                lb_upgrade_required = True\<rparr>
                        else Next (Some \<lparr>nl_current_count = noteCount, nl_limit = note_limit tenant,
                                         nl_remaining = note_limit tenant - int noteCount,
                                         nl_subscription_plan = subscription_plan tenant\<rparr>))))"

section \<open>The tenant service (Tenant model and services/tenantService.js)\<close>

text \<open>
  \<open>save()\<close> of a tenant document runs the validators of the paths that changed; for
  \<open>upgradeToPro\<close> these are the plan (an enum value by its type) and \<open>note_limit\<close>, declared
  with \<open>min: [0, 'Note limit cannot be negative']\<close>. A document that passes replaces
  the stored one, with \<open>updated_at\<close> refreshed.
\<close>

definition Tenant_save :: "Tenant \<Rightarrow> date \<Rightarrow> Tenant list \<Rightarrow> error + Tenant \<times> Tenant list" where
  "Tenant_save t now ts =
     (if note_limit t < 0 then Inl (ValidationError ''Note limit cannot be negative'')
      else (let t' = t\<lparr>t_updated_at := now\<rparr>
            in Inr (t', map (\<lambda>x. if t_id x = t_id t then t' else x) ts)))"

definition upgradeToPro :: "Tenant \<Rightarrow> date \<Rightarrow> Tenant list \<Rightarrow> error + Tenant \<times> Tenant list" where
  "upgradeToPro t now ts = Tenant_save (t\<lparr>subscription_plan := Pro, note_limit := - 1\<rparr>) now ts"

record upgrade_data =
  ud_id :: oid
  ud_slug :: string
  ud_name :: string
  ud_subscription_plan :: plan
  ud_note_limit :: int
  ud_upgraded_at :: "date option"

record upgrade_reply =
  ur_message :: string
  ur_data :: upgrade_data

text \<open>
  \<open>TenantService.upgradeSubscription\<close>. The value of a query is cast through the setters
  of its path, so \<open>Tenant.findOne({ slug: tenantSlug })\<close> looks for the trimmed,
  lower-cased argument.
\<close>

definition upgradeSubscription ::
  "string \<Rightarrow> oid \<Rightarrow> oid \<Rightarrow> date \<Rightarrow> db \<Rightarrow> (error + upgrade_reply) \<times> db" where
  "upgradeSubscription tenantSlug userId userTenantId now d =
     (case find (\<lambda>u. u_id u = userId \<and> u_tenant_id u = userTenantId \<and> u_role u = Admin \<and> u_is_active u)
             (Users d) of
        None \<Rightarrow> (Inl (Error INSUFFICIENT_PERMISSIONS), d)
      | Some user \<Rightarrow>
          (case find (\<lambda>t. slug t = toLowerCase (trim tenantSlug)) (Tenants d) of
             None \<Rightarrow> (Inl (Error TENANT_NOT_FOUND), d)
           | Some tenant \<Rightarrow>
               if t_id tenant \<noteq> userTenantId then (Inl (Error INSUFFICIENT_PERMISSIONS), d)
               else if subscription_plan tenant = Pro then
                 (Inr \<lparr>ur_message = ALREADY_PRO,
                       ur_data = \<lparr>ud_id = t_id tenant, ud_slug = slug tenant, ud_name = name tenant,
                                  ud_subscription_plan = subscription_plan tenant,
                                  ud_note_limit = - 1, ud_upgraded_at = None\<rparr>\<rparr>, d)
               else (case upgradeToPro tenant now (Tenants d) of
                       Inl e \<Rightarrow> (Inl e, d)
                     | Inr (updatedTenant, ts) \<Rightarrow>
                         (Inr \<lparr>ur_message = TENANT_UPGRADED,
                               ur_data = \<lparr>ud_id = t_id updatedTenant, ud_slug = slug updatedTenant,
                                          ud_name = name updatedTenant,
                                          ud_subscription_plan = subscription_plan updatedTenant,
                                          ud_note_limit = - 1,
                                          ud_upgraded_at = Some (t_updated_at updatedTenant)\<rparr>\<rparr>,
                          d\<lparr>Tenants := ts\<rparr>))))"

section \<open>Authentication (src/utils/jwt.js, src/middleware/auth.js)\<close>

text \<open>The payload of a token, as \<open>login\<close> signs it.\<close>

record token_claims =
  c_id :: oid
  c_email :: string
  c_role :: role
  c_tenant_id :: oid
  c_tenant_slug :: string

text \<open>
  \<open>extractTokenFromHeader\<close>: the header must be a non-empty string that starts with
  \<open>'Bearer '\<close>; the token is what follows these seven characters.
\<close>

definition extractTokenFromHeader :: "string option \<Rightarrow> error + string" where
  "extractTokenFromHeader authHeader =
     (case authHeader of
        None \<Rightarrow> Inl (Error ''No valid authorization header found'')
      | Some h \<Rightarrow>
          if h = [] \<or> take 7 h \<noteq> ''Bearer '' then Inl (Error ''No valid authorization header found'')
          else Inr (drop 7 h))"

text \<open>
  \<open>authenticate\<close>. The signature check of the JWT library is the parameter
  \<open>verifyToken\<close> (\<open>None\<close>: it throws). The answer is a status with a message, or the
  identity that becomes \<open>req.user\<close>. \<open>populate\<close> of the user's tenant is the lookup of
  the tenant by the user's \<open>tenant_id\<close>.
\<close>

datatype auth_result = Rejected nat string | Authenticated identity

definition authenticate :: "(string \<Rightarrow> token_claims option) \<Rightarrow> string option \<Rightarrow> db \<Rightarrow> auth_result" where
  "authenticate verifyToken authHeader d =
     (if authHeader = None \<or> authHeader = Some [] then Rejected 401 TOKEN_REQUIRED
      else (case extractTokenFromHeader authHeader of
              Inl e \<Rightarrow> Rejected 401 TOKEN_INVALID
            | Inr token \<Rightarrow>
                (case verifyToken token of
                   None \<Rightarrow> Rejected 401 TOKEN_INVALID
                 | Some decoded \<Rightarrow>
                     (case find (\<lambda>u. u_id u = c_id decoded \<and> u_tenant_id u = c_tenant_id decoded \<and>
                                     u_is_active u) (Users d) of
                        None \<Rightarrow> Rejected 401 INVALID_CREDENTIALS
                      | Some user \<Rightarrow>
                          (case find (\<lambda>t. t_id t = u_tenant_id user) (Tenants d) of
                             None \<Rightarrow> Rejected 401 INVALID_TENANT
                           | Some t \<Rightarrow>
                               if \<not> t_is_active t then Rejected 401 INVALID_TENANT
                               else Authenticated
                                      \<lparr>i_id = u_id user, i_email = email user, i_role = u_role user,
                                       i_tenant_id = t_id t, i_tenant_slug = slug t,
                                       i_tenant_subscription = subscription_plan t\<rparr>)))))"

definition reject_all :: "string \<Rightarrow> token_claims option" where
  "reject_all token = None"

definition admin_acme :: User where
  "admin_acme = \<lparr>u_id = 102, u_tenant_id = 10, email = ''admin@acme.test'', password_hash = ''h1'',
     u_role = Admin, u_is_active = True, last_login = None\<rparr>"

definition user_acme :: User where
  "user_acme = \<lparr>u_id = 100, u_tenant_id = 10, email = ''user@acme.test'', password_hash = ''h2'',
     u_role = Member, u_is_active = True, last_login = None\<rparr>"

definition acme_pro :: Tenant where
  "acme_pro = acme\<lparr>subscription_plan := Pro\<rparr>"

definition note_e :: Note where
  "note_e = \<lparr>note_id = 5, tenant_id = 10, user_id = 100, title = ''five'', content = ''5'',
     tags = [], is_archived = False, is_deleted = False, created_at = 8, updated_at = 8\<rparr>"

definition db_full :: db where
  "db_full = \<lparr>Notes = [note_a, note_c, note_d], Tenants = [acme, globex], Users = [admin_acme, user_acme]\<rparr>"

definition db_over :: db where
  "db_over = \<lparr>Notes = [note_a, note_c, note_d, note_e], Tenants = [acme, globex],
     Users = [admin_acme, user_acme]\<rparr>"

definition db_pro :: db where
  "db_pro = \<lparr>Notes = [note_a, note_c, note_d, note_e], Tenants = [acme_pro, globex],
     Users = [admin_acme, user_acme]\<rparr>"

definition body_new :: payload where
  "body_new = empty_payload\<lparr>p_title := Some ''next'', p_content := Some ''one''\<rparr>"

section \<open>Users: the schema's indexes, the seed and the login (User model, scripts/seedData.js, services/authService.js)\<close>

text \<open>The setters of the \<open>email\<close> path (\<open>lowercase: true, trim: true\<close>); they also run on a query value.\<close>

definition cast_email :: "string \<Rightarrow> string" where
  "cast_email e = toLowerCase (trim e)"

text \<open>
  The unique indexes the schema declares on the users collection, next to that of
  \<open>_id\<close>: \<open>email: { unique: true }\<close> on the email alone, and
  \<open>index({ tenant_id: 1, email: 1 }, { unique: true })\<close> on the pair. The store refuses
  an insert that repeats a key of a unique index.
\<close>

definition User_indexes_ok :: "User list \<Rightarrow> bool" where
  "User_indexes_ok us =
     (distinct (map u_id us) \<and> distinct (map email us) \<and>
      distinct (map (\<lambda>u. (u_tenant_id u, email u)) us))"

definition User_insert :: "User \<Rightarrow> User list \<Rightarrow> error + User list" where
  "User_insert doc us =
     (let u = doc\<lparr>email := cast_email (email doc)\<rparr> in
      if u_id u \<in> set (map u_id us) \<or> email u \<in> set (map email us) \<or>
         (u_tenant_id u, email u) \<in> set (map (\<lambda>x. (u_tenant_id x, email x)) us)
      then Inl (MongoServerError ''E11000 duplicate key error'')
      else Inr (us @ [u]))"

text \<open>
  The seed script writes each test user with
  \<open>User.findOneAndUpdate({ email }, userData, { upsert: true, new: true })\<close>: the user
  with that email is overwritten with the four fields of \<open>userData\<close>, and when there is
  none a new document is inserted (\<open>is_active\<close> and \<open>last_login\<close> by their defaults).
\<close>

record seed_user =
  s_tenant_id :: oid
  s_email :: string
  s_password_hash :: string
  s_role :: role

definition seed_upsert :: "seed_user \<Rightarrow> oid \<Rightarrow> User list \<Rightarrow> error + User list" where
  "seed_upsert userData newId us =
     (case findOneAndUpdate (\<lambda>u. email u = cast_email (s_email userData))
             (\<lambda>u. u\<lparr>u_tenant_id := s_tenant_id userData, email := cast_email (s_email userData),
                    password_hash := s_password_hash userData, u_role := s_role userData\<rparr>) us of
        (Some u, us') \<Rightarrow> Inr us'
      | (None, _) \<Rightarrow>
          User_insert \<lparr>u_id = newId, u_tenant_id = s_tenant_id userData, email = s_email userData,
                       password_hash = s_password_hash userData, u_role = s_role userData,
                       u_is_active = True, last_login = None\<rparr> us)"

record login_user =
  lu_id :: oid
  lu_email :: string
  lu_role :: role
  lu_tenant_id :: oid
  lu_tenant_slug :: string
  lu_tenant_name :: string
  lu_tenant_plan :: plan
  lu_last_login :: "date option"

record login_reply =
  lr_user :: login_user
  lr_token :: string

text \<open>
  \<open>AuthService.login\<close>. The user is looked up by \<open>{ email: email.toLowerCase(),
  is_active: true }\<close> and by nothing else. \<open>comparePassword\<close> (bcrypt) and
  \<open>generateToken\<close> (the JWT library) are parameters. The only write is \<open>last_login\<close> of
  the user that was found; the reply still shows the value read before it.
\<close>

definition login ::
  "(string \<Rightarrow> string \<Rightarrow> bool) \<Rightarrow> (token_claims \<Rightarrow> string) \<Rightarrow> string \<Rightarrow> string \<Rightarrow> date \<Rightarrow> db \<Rightarrow>
     (error + login_reply) \<times> db" where
  "login comparePassword generateToken emailArg password now d =
     (case find (\<lambda>u. email u = cast_email (toLowerCase emailArg) \<and> u_is_active u) (Users d) of
        None \<Rightarrow> (Inl (Error INVALID_CREDENTIALS), d)
      | Some user \<Rightarrow>
          (case find (\<lambda>t. t_id t = u_tenant_id user) (Tenants d) of
             None \<Rightarrow> (Inl (Error TENANT_NOT_FOUND), d)
           | Some t \<Rightarrow>
               if slug t = [] then (Inl (Error TENANT_NOT_FOUND), d)
               else if \<not> comparePassword password (password_hash user)
               then (Inl (Error INVALID_CREDENTIALS), d)
               else (Inr \<lparr>lr_user = \<lparr>lu_id = u_id user, lu_email = email user, lu_role = u_role user,
                                      lu_tenant_id = t_id t, lu_tenant_slug = slug t,
                                      lu_tenant_name = name t, lu_tenant_plan = subscription_plan t,
                                      lu_last_login = last_login user\<rparr>,
                          lr_token = generateToken \<lparr>c_id = u_id user, c_email = email user,
                                       c_role = u_role user, c_tenant_id = t_id t,
                                       c_tenant_slug = slug t\<rparr>\<rparr>,
                     d\<lparr>Users := snd (findOneAndUpdate (\<lambda>x. u_id x = u_id user)
                                         (\<lambda>x. x\<lparr>last_login := Some now\<rparr>) (Users d))\<rparr>)))"

text \<open>
  The users collections the repository's writes can produce: the empty collection,
  and what a seed write or a login leaves.
\<close>

inductive reachable_users :: "User list \<Rightarrow> bool" where
  start: "reachable_users []"
| seeded: "reachable_users us \<Longrightarrow> seed_upsert userData newId us = Inr us' \<Longrightarrow> reachable_users us'"
| logged_in: "reachable_users (Users d) \<Longrightarrow> login cmp gen e p now d = (r, d') \<Longrightarrow>
     reachable_users (Users d')"

definition seed_admin_acme :: seed_user where
  "seed_admin_acme = \<lparr>s_tenant_id = 10, s_email = ''admin@acme.test'', s_password_hash = ''h1'',
     s_role = Admin\<rparr>"

definition seed_admin_globex :: seed_user where
  "seed_admin_globex = \<lparr>s_tenant_id = 20, s_email = ''Admin@Globex.test '', s_password_hash = ''h3'',
     s_role = Admin\<rparr>"

definition seed_acme_again :: seed_user where
  "seed_acme_again = \<lparr>s_tenant_id = 20, s_email = ''ADMIN@acme.test'', s_password_hash = ''h4'',
     s_role = Member\<rparr>"

definition admin_globex :: User where
  "admin_globex = \<lparr>u_id = 201, u_tenant_id = 20, email = ''admin@globex.test'', password_hash = ''h3'',
     u_role = Admin, u_is_active = True, last_login = None\<rparr>"

section \<open>Facts about the collection primitives\<close>

lemma findOneAndUpdate_fst: "fst (findOneAndUpdate q f xs) = map_option f (find q xs)"
  by (induction xs) (auto split: prod.splits)

lemma findOneAndUpdate_map:
  "(\<And>x. q x \<Longrightarrow> g (f x) = g x) \<Longrightarrow> map g (snd (findOneAndUpdate q f xs)) = map g xs"
  by (induction xs) (auto split: prod.splits)

lemma findOneAndUpdate_None: "find q xs = None \<Longrightarrow> findOneAndUpdate q f xs = (None, xs)"
  by (induction xs) (auto split: if_splits)

lemma key_unique:
  "distinct (map k xs) \<Longrightarrow> n \<in> set xs \<Longrightarrow> m \<in> set xs \<Longrightarrow> k m = k n \<Longrightarrow> m = n"
  by (meson distinct_map inj_on_eq_iff)

lemma find_key_None:
  assumes "distinct (map k xs)" "n \<in> set xs" "\<not> q n" "\<And>m. q m \<Longrightarrow> k m = k n"
  shows "find q xs = None"
proof -
  have "\<not> (\<exists>m. m \<in> set xs \<and> q m)"
    using assms key_unique[of k xs n] by blast
  then show ?thesis by (simp add: find_None_iff)
qed


lemma findOneAndUpdate_key:
  assumes "distinct (map k xs)" "n \<in> set xs" "q n" "\<And>m. q m \<Longrightarrow> k m = k n"
  shows "findOneAndUpdate q f xs = (Some (f n), map (\<lambda>m. if k m = k n then f m else m) xs)"
  using assms(1,2)
proof (induction xs)
  case Nil
  then show ?case by simp
next
  case (Cons x xs)
  show ?case
  proof (cases "q x")
    case True
    then have kx: "k x = k n" using assms(4) by blast
    then have "x = n" using Cons.prems key_unique[of k "x # xs" n x] by simp
    moreover have "map (\<lambda>m. if k m = k n then f m else m) xs = xs"
      using Cons.prems kx by (intro map_idI) (auto simp: image_iff)
    ultimately show ?thesis using True by simp
  next
    case False
    then have "x \<noteq> n" using assms(3) by blast
    then have "n \<in> set xs" using Cons.prems by simp
    moreover have "k x \<noteq> k n"
      using Cons.prems \<open>x \<noteq> n\<close> key_unique[of k "x # xs" n x] by auto
    ultimately show ?thesis using False Cons by simp
  qed
qed




lemma note_query_id: "note_query i T uid m \<Longrightarrow> note_id m = i"
  by (simp add: note_query_def)



lemma deleteNote_other:
  assumes "distinct (map note_id (Notes d))" "n \<in> set (Notes d)" "\<not> note_query (note_id n) T uid n"
  shows "deleteNote (note_id n) T uid now d = (Inl (Error NOTE_NOT_FOUND), d)"
proof -
  have "find (note_query (note_id n) T uid) (Notes d) = None"
    using assms by (intro find_key_None[where k = note_id and n = n]) (auto dest: note_query_id)
  then show ?thesis
    by (simp add: deleteNote_def findOneAndUpdate_None)
qed



lemma deleteNote_match:
  assumes "distinct (map note_id (Notes d))" "n \<in> set (Notes d)" "note_query (note_id n) T uid n"
  shows "deleteNote (note_id n) T uid now d =
     (Inr (), d\<lparr>Notes := map (\<lambda>m. if note_id m = note_id n
                                  then m\<lparr>is_deleted := True, updated_at := now\<rparr> else m) (Notes d)\<rparr>)"
proof -
  have "findOneAndUpdate (note_query (note_id n) T uid)
          (\<lambda>n. n\<lparr>is_deleted := True, updated_at := now\<rparr>) (Notes d) =
        (Some (n\<lparr>is_deleted := True, updated_at := now\<rparr>),
         map (\<lambda>m. if note_id m = note_id n then m\<lparr>is_deleted := True, updated_at := now\<rparr> else m) (Notes d))"
    using assms by (intro findOneAndUpdate_key) (auto dest: note_query_id)
  then show ?thesis by (simp add: deleteNote_def)
qed

section \<open>The ids of the notes collection\<close>

text \<open>
  The theorems below assume that no two stored notes share an \<open>_id\<close>. The store
  guarantees it, and every write of the service keeps it: \<open>createNote\<close> stores a note
  only under an id that is not yet there, and an update or a delete changes no id.
\<close>

lemma createNote_ids:
  assumes "distinct (map note_id (Notes d))" "createNote noteData userId T newId now d = (r, d')"
  shows "distinct (map note_id (Notes d'))"
  using assms
  by (auto simp: createNote_def Note_save_def split: option.splits sum.splits if_splits)

lemma updateNote_ids:
  assumes "updateNote i patch T uid now d = (r, d')"
  shows "map note_id (Notes d') = map note_id (Notes d)"
proof -
  have "map note_id (snd (findOneAndUpdate (note_query i T uid)
          (\<lambda>n. (apply_update (cast_payload patch) n)\<lparr>updated_at := now\<rparr>) (Notes d))) =
        map note_id (Notes d)"
    by (rule findOneAndUpdate_map) (simp add: apply_update_def)
  then show ?thesis
    using assms by (auto simp: updateNote_def Let_def split: option.splits prod.splits)
qed

lemma deleteNote_ids:
  assumes "deleteNote i T uid now d = (r, d')"
  shows "map note_id (Notes d') = map note_id (Notes d)"
proof -
  have "map note_id (snd (findOneAndUpdate (note_query i T uid)
          (\<lambda>n. n\<lparr>is_deleted := True, updated_at := now\<rparr>) (Notes d))) = map note_id (Notes d)"
    by (rule findOneAndUpdate_map) simp
  then show ?thesis
    using assms by (auto simp: deleteNote_def split: option.splits prod.splits)
qed

section \<open>Tenant isolation\<close>





text \<open>
  The claim that \<open>updateNote\<close> on a note of another tenant always answers
  \<open>Note not found\<close> fails: a payload whose title is blank is rejected by the schema
  validators before the note is looked up, and the answer is the validation error.
\<close>

theorem tenant_isolation_counterexample:
  "note_a \<in> set (Notes db_ab) \<and> note_id note_a = 1 \<and> tenant_id note_a = 10 \<and>
   updateNote 1 body_blank 20 None 9 db_ab = (Inl (ValidationError ''Note title is required''), db_ab)"
  by (simp add: db_ab_def note_a_def note_b_def body_blank_def empty_payload_def cast_payload_def
      updateNote_def validate_paths_def first_error_def validate_title_def trim_def is_space_def
      whitespace_def)

lemmas ex_defs = db_ab_def note_a_def note_b_def acme_def globex_def empty_payload_def cast_payload_def
      validate_paths_def first_error_def validate_title_def validate_content_def trim_def
      is_space_def whitespace_def admin_102_def member_101_def

section \<open>The validation chain of a note body\<close>







section \<open>Ownership within a tenant\<close>


lemmas body_defs = body_x_def body_xy_def updateNoteValidation_def createNoteValidation_def isLength_def
  body_sanitized_def



section \<open>What an update may write\<close>

lemma findOneAndUpdate_Some:
  "findOneAndUpdate q f xs = (Some y, ys) \<Longrightarrow> \<exists>x \<in> set xs. q x \<and> y = f x"
  by (induction xs arbitrary: ys) (auto split: if_splits prod.splits)

lemma updateNote_result:
  assumes "updateNote i patch T uid now d = (Inr r, d')"
  shows "\<exists>n \<in> set (Notes d). note_query i T uid n \<and>
           r = (apply_update (cast_payload patch) n)\<lparr>updated_at := now\<rparr>"
proof -
  let ?f = "\<lambda>n. (apply_update (cast_payload patch) n)\<lparr>updated_at := now\<rparr>"
  obtain y ys where fu: "findOneAndUpdate (note_query i T uid) ?f (Notes d) = (y, ys)"
    by (cases "findOneAndUpdate (note_query i T uid) ?f (Notes d)")
  from assms fu have "y = Some r"
    by (cases y) (auto simp: updateNote_def Let_def split: option.splits)
  with fu show ?thesis
    using findOneAndUpdate_Some[of "note_query i T uid" ?f "Notes d" r ys] by blast
qed

text \<open>What a successful update leaves in the two owner paths: the payload's value when it holds one.\<close>

lemma updateNote_writes_owner_paths:
  assumes "updateNote i patch T uid now d = (Inr r, d')"
  shows "tenant_id r = (case p_tenant_id patch of None \<Rightarrow> T | Some t \<Rightarrow> t)"
    and "\<exists>n \<in> set (Notes d). note_id n = i \<and>
           user_id r = (case p_user_id patch of None \<Rightarrow> user_id n | Some w \<Rightarrow> w)"
proof -
  obtain n where n: "n \<in> set (Notes d)" "note_query i T uid n"
    "r = (apply_update (cast_payload patch) n)\<lparr>updated_at := now\<rparr>"
    using updateNote_result[OF assms] by blast
  have "tenant_id r = (case p_tenant_id patch of None \<Rightarrow> tenant_id n | Some t \<Rightarrow> t)"
    unfolding n(3) by (simp add: apply_update_def cast_payload_def)
  then show "tenant_id r = (case p_tenant_id patch of None \<Rightarrow> T | Some t \<Rightarrow> t)"
    using n(2) by (auto simp: note_query_def split: option.splits)
  have "user_id r = (case p_user_id patch of None \<Rightarrow> user_id n | Some w \<Rightarrow> w)"
    unfolding n(3) by (simp add: apply_update_def cast_payload_def)
  then show "\<exists>n \<in> set (Notes d). note_id n = i \<and>
           user_id r = (case p_user_id patch of None \<Rightarrow> user_id n | Some w \<Rightarrow> w)"
    using n(1,2) by (auto simp: note_query_def)
qed

text \<open>The controller's whitelist keeps the owner paths, the id, the deleted flag and the creation time.\<close>

lemma controller_updateNote_frame:
  assumes "controller_updateNote ok u i body now d = (Reply 200 r, d')"
  shows "\<exists>n \<in> set (Notes d). note_id n = i \<and> note_id r = i \<and> tenant_id r = tenant_id n \<and>
           tenant_id r = i_tenant_id u \<and> user_id r = user_id n \<and> is_deleted r = is_deleted n \<and>
           created_at r = created_at n"
proof -
  obtain n where n: "n \<in> set (Notes d)" "note_query i (i_tenant_id u) (owner_filter u) n"
    "r = (apply_update (cast_payload (controller_updateData body)) n)\<lparr>updated_at := now\<rparr>"
  proof -
    from assms obtain x where "updateNote i (controller_updateData body) (i_tenant_id u) (owner_filter u) now d
        = (x, d')" "note_reply x = Reply 200 r"
      by (auto simp: controller_updateNote_def split: if_splits prod.splits)
    then have "updateNote i (controller_updateData body) (i_tenant_id u) (owner_filter u) now d = (Inr r, d')"
      by (cases x) (simp_all add: note_reply_def)
    from updateNote_result[OF this] that show ?thesis by blast
  qed
  have "note_id r = note_id n \<and> tenant_id r = tenant_id n \<and> user_id r = user_id n \<and>
        is_deleted r = is_deleted n \<and> created_at r = created_at n"
    unfolding n(3)
    by (simp add: apply_update_def cast_payload_def controller_updateData_def empty_payload_def)
  then show ?thesis
    using n(1,2) by (auto simp: note_query_def)
qed

text \<open>
  C3. The claim is that \<open>updateNote\<close> changes at most title, content, tags and the archived
  flag, and never the tenant or the owner. The service writes every schema path the
  update object holds, and the router hands it the request body as it is. Here the
  owner of \<open>note_a\<close> (tenant 10) sends a body that also holds \<open>tenant_id: 20\<close>: the update
  succeeds and the stored note now belongs to tenant 20.
\<close>

theorem update_overwrites_tenant:
  "tenant_id note_a = 10 \<and> updateNoteValidation body_move \<and>
   route_put_note member_100 1 body_move 9 db_ab =
     (Reply 200 (note_a\<lparr>tenant_id := 20, updated_at := 9\<rparr>),
      db_ab\<lparr>Notes := [note_a\<lparr>tenant_id := 20, updated_at := 9\<rparr>, note_b]\<rparr>)"
  by (simp add: route_put_note_def updateNote_def owner_filter_def member_100_def body_move_def
      note_query_def apply_update_def note_reply_def body_defs ex_defs)


section \<open>Soft delete\<close>

lemma deleteNote_success:
  assumes "distinct (map note_id (Notes d))" "deleteNote i T uid now d = (Inr (), d')"
  shows "\<exists>n \<in> set (Notes d). note_query i T uid n \<and>
           d' = d\<lparr>Notes := map (\<lambda>m. if note_id m = i
                        then m\<lparr>is_deleted := True, updated_at := now\<rparr> else m) (Notes d)\<rparr>"
proof -
  let ?f = "\<lambda>n. n\<lparr>is_deleted := True, updated_at := now\<rparr>"
  obtain y ys where fu: "findOneAndUpdate (note_query i T uid) ?f (Notes d) = (y, ys)"
    by (cases "findOneAndUpdate (note_query i T uid) ?f (Notes d)")
  from assms(2) fu obtain r where "y = Some r"
    by (cases y) (auto simp: deleteNote_def)
  with fu obtain n where n: "n \<in> set (Notes d)" "note_query i T uid n"
    using findOneAndUpdate_Some[of "note_query i T uid" ?f "Notes d" r ys] by blast
  then have i: "note_id n = i" by (simp add: note_query_def)
  from deleteNote_match[OF assms(1) n(1), of T uid now] n(2) assms(2) i
  have "d' = d\<lparr>Notes := map (\<lambda>m. if note_id m = i
                        then m\<lparr>is_deleted := True, updated_at := now\<rparr> else m) (Notes d)\<rparr>"
    by simp
  with n show ?thesis by blast
qed

text \<open>
  C6. With ids unique in the collection: a successful \<open>deleteNote\<close> removes nothing (the
  collection holds the same ids in the same order, and the other collections are
  untouched); the note with the given id has its deleted flag set and its \<open>updated_at\<close>
  refreshed, and every other note is as it was. After it, a further \<open>deleteNote\<close> on
  the same id, for any tenant and owner filter, answers \<open>Note not found\<close> and returns
  the store unchanged. The same holds for any stored note whose deleted flag is
  already set.
\<close>

theorem soft_delete:
  "distinct (map note_id (Notes d)) \<longrightarrow>
     (deleteNote i T uid now d = (Inr (), d') \<longrightarrow>
        Notes d' = map (\<lambda>m. if note_id m = i
                        then m\<lparr>is_deleted := True, updated_at := now\<rparr> else m) (Notes d) \<and>
        map note_id (Notes d') = map note_id (Notes d) \<and>
        Tenants d' = Tenants d \<and> Users d' = Users d \<and>
        deleteNote i T2 uid2 now2 d' = (Inl (Error NOTE_NOT_FOUND), d')) \<and>
     (n \<in> set (Notes d) \<longrightarrow> is_deleted n \<longrightarrow>
        deleteNote (note_id n) T uid now d = (Inl (Error NOTE_NOT_FOUND), d))"
proof (intro impI conjI)
  assume dist: "distinct (map note_id (Notes d))"
  {
    assume "n \<in> set (Notes d)" "is_deleted n"
    then show "deleteNote (note_id n) T uid now d = (Inl (Error NOTE_NOT_FOUND), d)"
      using dist by (intro deleteNote_other) (auto simp: note_query_def)
  }
  assume ok: "deleteNote i T uid now d = (Inr (), d')"
  let ?g = "\<lambda>m. if note_id m = i then m\<lparr>is_deleted := True, updated_at := now\<rparr> else m"
  obtain m where m: "m \<in> set (Notes d)" "note_query i T uid m" and d': "d' = d\<lparr>Notes := map ?g (Notes d)\<rparr>"
    using deleteNote_success[OF dist ok] by blast
  show nts: "Notes d' = map ?g (Notes d)" and "Tenants d' = Tenants d" and "Users d' = Users d"
    using d' by simp_all
  have ids: "map note_id (map ?g (Notes d)) = map note_id (Notes d)"
    by (induction "Notes d") auto
  show "map note_id (Notes d') = map note_id (Notes d)"
    unfolding nts by (rule ids)
  have i: "note_id m = i" using m(2) by (simp add: note_query_def)
  have dist': "distinct (map note_id (Notes d'))"
    unfolding nts ids by (rule dist)
  have in': "?g m \<in> set (Notes d')"
    using m(1) nts by simp
  have nq: "\<not> note_query (note_id (?g m)) T2 uid2 (?g m)"
    using i by (simp add: note_query_def)
  have "deleteNote (note_id (?g m)) T2 uid2 now2 d' = (Inl (Error NOTE_NOT_FOUND), d')"
    using dist' in' nq by (rule deleteNote_other)
  then show "deleteNote i T2 uid2 now2 d' = (Inl (Error NOTE_NOT_FOUND), d')"
    using i by simp
qed

theorem soft_delete_witness:
  "distinct (map note_id (Notes db_ab)) \<and>
   deleteNote 1 10 None 9 db_ab =
     (Inr (), db_ab\<lparr>Notes := [note_a\<lparr>is_deleted := True, updated_at := 9\<rparr>, note_b]\<rparr>) \<and>
   map note_id (Notes (db_ab\<lparr>Notes := [note_a\<lparr>is_deleted := True, updated_at := 9\<rparr>, note_b]\<rparr>)) = [1, 2] \<and>
   deleteNote 1 10 None 11 (db_ab\<lparr>Notes := [note_a\<lparr>is_deleted := True, updated_at := 9\<rparr>, note_b]\<rparr>) =
     (Inl (Error NOTE_NOT_FOUND), db_ab\<lparr>Notes := [note_a\<lparr>is_deleted := True, updated_at := 9\<rparr>, note_b]\<rparr>)"
proof -
  let ?d' = "db_ab\<lparr>Notes := [note_a\<lparr>is_deleted := True, updated_at := 9\<rparr>, note_b]\<rparr>"
  have dist: "distinct (map note_id (Notes db_ab))"
    by (simp add: ex_defs)
  have ok: "deleteNote 1 10 None 9 db_ab = (Inr (), ?d')"
    by (simp add: deleteNote_def note_query_def ex_defs)
  have again: "deleteNote 1 10 None 11 ?d' = (Inl (Error NOTE_NOT_FOUND), ?d')"
    using soft_delete[of db_ab 1 10 None 9 ?d' 10 None 11] dist ok by blast
  have ids: "map note_id (Notes ?d') = [1, 2]"
    by (simp add: ex_defs)
  show ?thesis using dist ok again ids by blast
qed

section \<open>Order of a listing\<close>








section \<open>Pagination\<close>























section \<open>The note quota\<close>

lemma checkNoteLimit_free_full:
  assumes "find (\<lambda>t. t_id t = T) (Tenants d) = Some tenant" "subscription_plan tenant = Free"
    and "note_limit tenant \<le> int (countDocuments (\<lambda>n. tenant_id n = T \<and> \<not> is_deleted n) (Notes d))"
  shows "checkNoteLimit T d = Some (Error LIMIT_EXCEEDED)"
  using assms by (simp add: checkNoteLimit_def Let_def)

lemma checkNoteLimit_pro:
  assumes "find (\<lambda>t. t_id t = T) (Tenants d) = Some tenant" "subscription_plan tenant = Pro"
  shows "checkNoteLimit T d = None"
  using assms by (simp add: checkNoteLimit_def)

lemma createNote_unchecked:
  assumes "checkNoteLimit T d = None"
  shows "createNote noteData userId T newId now d =
     (case Note_new (noteData\<lparr>p_user_id := Some userId, p_tenant_id := Some T\<rparr>) newId now of
        Inl e \<Rightarrow> (Inl e, d)
      | Inr n \<Rightarrow> (case Note_save n (Notes d) of
                    Inl e \<Rightarrow> (Inl e, d)
                  | Inr ns \<Rightarrow> (Inr n, d\<lparr>Notes := ns\<rparr>)))"
  using assms by (simp add: createNote_def)

lemma Note_new_error: "Note_new obj newId now = Inl e \<Longrightarrow> \<exists>m. e = ValidationError m"
  by (auto simp: Note_new_def Let_def split: option.splits)

lemma Note_save_error: "Note_save n ns = Inl e \<Longrightarrow> \<exists>m. e = MongoServerError m"
  by (auto simp: Note_save_def split: if_splits)

lemma createNote_pro_not_quota:
  assumes "checkNoteLimit T d = None"
  shows "fst (createNote noteData userId T newId now d) \<noteq> Inl (Error LIMIT_EXCEEDED)"
  unfolding createNote_unchecked[OF assms]
  by (auto split: sum.splits dest: Note_new_error Note_save_error)

lemmas quota_defs = checkNoteLimit_def checkNoteLimit_mw_def createNote_def Note_new_def Note_save_def
  countDocuments_def db_full_def db_over_def db_pro_def acme_pro_def note_c_def note_d_def note_e_def
  admin_acme_def user_acme_def body_new_def member_100_def

text \<open>
  C4, as the code has it. For a tenant on the free plan whose count of non-deleted
  notes is at least its \<open>note_limit\<close>: \<open>createNote\<close> is rejected with the error
  \<open>Note limit exceeded...\<close>, an error that holds this message and nothing else, and the
  store is unchanged; the \<open>checkNoteLimit\<close> middleware answers 403 with \<open>current_count\<close>
  the actual count and \<open>limit\<close> the tenant's \<open>note_limit\<close>. For a tenant on the pro plan
  the limit check always passes, in the service and in the middleware, whatever the
  count, and \<open>createNote\<close> never fails with the limit error.
\<close>

theorem note_quota:
  "find (\<lambda>t. t_id t = T) (Tenants d) = Some tenant \<longrightarrow>
     (subscription_plan tenant = Free \<longrightarrow>
        note_limit tenant \<le> int (countDocuments (\<lambda>n. tenant_id n = T \<and> \<not> is_deleted n) (Notes d)) \<longrightarrow>
          createNote noteData userId T newId now d = (Inl (Error LIMIT_EXCEEDED), d) \<and>
          (i_tenant_id u = T \<longrightarrow>
             checkNoteLimit_mw (Some u) d =
               LimitReached 403
                 \<lparr>lb_message = LIMIT_EXCEEDED,
                  lb_current_count = countDocuments (\<lambda>n. tenant_id n = T \<and> \<not> is_deleted n) (Notes d),
                  lb_limit = note_limit tenant, lb_subscription_plan = Free,
                  lb_upgrade_required = True\<rparr>)) \<and>
     (subscription_plan tenant = Pro \<longrightarrow>
        checkNoteLimit T d = None \<and>
        fst (createNote noteData userId T newId now d) \<noteq> Inl (Error LIMIT_EXCEEDED) \<and>
        (i_tenant_id u = T \<longrightarrow> checkNoteLimit_mw (Some u) d = Next None))"
proof (intro impI conjI)
  assume t: "find (\<lambda>t. t_id t = T) (Tenants d) = Some tenant"
  {
    assume f: "subscription_plan tenant = Free"
      and c: "note_limit tenant \<le> int (countDocuments (\<lambda>n. tenant_id n = T \<and> \<not> is_deleted n) (Notes d))"
    show "createNote noteData userId T newId now d = (Inl (Error LIMIT_EXCEEDED), d)"
      using checkNoteLimit_free_full[OF t f c] by (simp add: createNote_def)
    assume "i_tenant_id u = T"
    then show "checkNoteLimit_mw (Some u) d =
               LimitReached 403
                 \<lparr>lb_message = LIMIT_EXCEEDED,
                  lb_current_count = countDocuments (\<lambda>n. tenant_id n = T \<and> \<not> is_deleted n) (Notes d),
                  lb_limit = note_limit tenant, lb_subscription_plan = Free,
                  lb_upgrade_required = True\<rparr>"
      using t f c by (simp add: checkNoteLimit_mw_def Let_def)
  }
  assume p: "subscription_plan tenant = Pro"
  show n: "checkNoteLimit T d = None"
    using t p by (rule checkNoteLimit_pro)
  show "fst (createNote noteData userId T newId now d) \<noteq> Inl (Error LIMIT_EXCEEDED)"
    using n by (rule createNote_pro_not_quota)
  assume "i_tenant_id u = T"
  then show "checkNoteLimit_mw (Some u) d = Next None"
    using t p by (simp add: checkNoteLimit_mw_def)
qed

theorem note_quota_witness:
  "find (\<lambda>t. t_id t = 10) (Tenants db_full) = Some acme \<and> subscription_plan acme = Free \<and>
   note_limit acme = 3 \<and>
   countDocuments (\<lambda>n. tenant_id n = 10 \<and> \<not> is_deleted n) (Notes db_full) = 3 \<and>
   createNote body_new 100 10 6 9 db_full = (Inl (Error LIMIT_EXCEEDED), db_full) \<and>
   checkNoteLimit_mw (Some member_100) db_full =
     LimitReached 403 \<lparr>lb_message = LIMIT_EXCEEDED, lb_current_count = 3, lb_limit = 3,
       lb_subscription_plan = Free, lb_upgrade_required = True\<rparr> \<and>
   find (\<lambda>t. t_id t = 10) (Tenants db_pro) = Some acme_pro \<and> subscription_plan acme_pro = Pro \<and>
   checkNoteLimit 10 db_pro = None \<and>
   checkNoteLimit_mw (Some member_100) db_pro = Next None \<and>
   fst (createNote body_new 100 10 6 9 db_pro) =
     Inr \<lparr>note_id = 6, tenant_id = 10, user_id = 100, title = ''next'', content = ''one'', tags = [],
          is_archived = False, is_deleted = False, created_at = 9, updated_at = 9\<rparr>"
proof -
  have a: "find (\<lambda>t. t_id t = 10) (Tenants db_full) = Some acme" "subscription_plan acme = Free"
    "note_limit acme = 3"
    "countDocuments (\<lambda>n. tenant_id n = 10 \<and> \<not> is_deleted n) (Notes db_full) = 3"
    "i_tenant_id member_100 = 10"
    by (simp_all add: quota_defs ex_defs)
  have b: "find (\<lambda>t. t_id t = 10) (Tenants db_pro) = Some acme_pro" "subscription_plan acme_pro = Pro"
    by (simp_all add: quota_defs ex_defs)
  have c: "fst (createNote body_new 100 10 6 9 db_pro) =
     Inr \<lparr>note_id = 6, tenant_id = 10, user_id = 100, title = ''next'', content = ''one'', tags = [],
          is_archived = False, is_deleted = False, created_at = 9, updated_at = 9\<rparr>"
    by (simp add: quota_defs ex_defs)
  from note_quota[of 10 db_full acme body_new 100 6 9 member_100] a
  have f: "createNote body_new 100 10 6 9 db_full = (Inl (Error LIMIT_EXCEEDED), db_full)"
    "checkNoteLimit_mw (Some member_100) db_full =
     LimitReached 403 \<lparr>lb_message = LIMIT_EXCEEDED, lb_current_count = 3, lb_limit = 3,
       lb_subscription_plan = Free, lb_upgrade_required = True\<rparr>"
    by simp_all
  from note_quota[of 10 db_pro acme_pro body_new 100 6 9 member_100] a(5) b
  have p: "checkNoteLimit 10 db_pro = None" "checkNoteLimit_mw (Some member_100) db_pro = Next None"
    by simp_all
  show ?thesis using a(1-4) b c f p by simp
qed

text \<open>
  The claim that the rejection carries \<open>used = L\<close> fails: with four live notes against a
  limit of three the middleware reports a count of 4, and the service error has no
  count at all.
\<close>

theorem note_quota_counterexample:
  "find (\<lambda>t. t_id t = 10) (Tenants db_over) = Some acme \<and> subscription_plan acme = Free \<and>
   note_limit acme = 3 \<and>
   countDocuments (\<lambda>n. tenant_id n = 10 \<and> \<not> is_deleted n) (Notes db_over) = 4 \<and>
   checkNoteLimit_mw (Some member_100) db_over =
     LimitReached 403 \<lparr>lb_message = LIMIT_EXCEEDED, lb_current_count = 4, lb_limit = 3,
       lb_subscription_plan = Free, lb_upgrade_required = True\<rparr> \<and>
   createNote body_new 100 10 6 9 db_over = (Inl (Error LIMIT_EXCEEDED), db_over)"
  by (simp add: quota_defs ex_defs)

section \<open>Plan upgrade\<close>

text \<open>
  C5. For a tenant that is already on the pro plan, an upgrade called by an active admin
  of that tenant, under the tenant's own slug (the lookup trims and lower-cases the
  argument), succeeds: it answers
  \<open>Tenant is already on Pro plan\<close> with the tenant's id, slug, name and plan and the
  quota \<open>-1\<close>, and leaves the store as it was. A second upgrade after it gives the same
  answer and the same store.
\<close>

theorem upgrade_idempotent:
  "find (\<lambda>u. u_id u = userId \<and> u_tenant_id u = userTenantId \<and> u_role u = Admin \<and> u_is_active u)
      (Users d) = Some a \<longrightarrow>
   find (\<lambda>t. slug t = toLowerCase (trim tenantSlug)) (Tenants d) = Some t \<longrightarrow>
   t_id t = userTenantId \<longrightarrow> subscription_plan t = Pro \<longrightarrow>
     upgradeSubscription tenantSlug userId userTenantId now d =
       (Inr \<lparr>ur_message = ALREADY_PRO,
             ur_data = \<lparr>ud_id = t_id t, ud_slug = slug t, ud_name = name t,
                        ud_subscription_plan = Pro, ud_note_limit = - 1, ud_upgraded_at = None\<rparr>\<rparr>, d) \<and>
     upgradeSubscription tenantSlug userId userTenantId now'
         (snd (upgradeSubscription tenantSlug userId userTenantId now d)) =
       upgradeSubscription tenantSlug userId userTenantId now d"
proof (intro impI)
  assume h: "find (\<lambda>u. u_id u = userId \<and> u_tenant_id u = userTenantId \<and> u_role u = Admin \<and> u_is_active u)
      (Users d) = Some a"
    "find (\<lambda>t. slug t = toLowerCase (trim tenantSlug)) (Tenants d) = Some t" "t_id t = userTenantId"
    "subscription_plan t = Pro"
  have r: "\<And>w. upgradeSubscription tenantSlug userId userTenantId w d =
       (Inr \<lparr>ur_message = ALREADY_PRO,
             ur_data = \<lparr>ud_id = t_id t, ud_slug = slug t, ud_name = name t,
                        ud_subscription_plan = Pro, ud_note_limit = - 1, ud_upgraded_at = None\<rparr>\<rparr>, d)"
    using h by (simp add: upgradeSubscription_def)
  show "upgradeSubscription tenantSlug userId userTenantId now d =
       (Inr \<lparr>ur_message = ALREADY_PRO,
             ur_data = \<lparr>ud_id = t_id t, ud_slug = slug t, ud_name = name t,
                        ud_subscription_plan = Pro, ud_note_limit = - 1, ud_upgraded_at = None\<rparr>\<rparr>, d) \<and>
     upgradeSubscription tenantSlug userId userTenantId now'
         (snd (upgradeSubscription tenantSlug userId userTenantId now d)) =
       upgradeSubscription tenantSlug userId userTenantId now d"
    by (simp add: r)
qed

theorem upgrade_idempotent_witness:
  "find (\<lambda>u. u_id u = 102 \<and> u_tenant_id u = 10 \<and> u_role u = Admin \<and> u_is_active u) (Users db_pro)
     = Some admin_acme \<and>
   find (\<lambda>t. slug t = toLowerCase (trim ''acme'')) (Tenants db_pro) = Some acme_pro \<and>
   t_id acme_pro = 10 \<and> subscription_plan acme_pro = Pro \<and>
   upgradeSubscription ''acme'' 102 10 50 db_pro =
     (Inr \<lparr>ur_message = ALREADY_PRO,
           ur_data = \<lparr>ud_id = 10, ud_slug = ''acme'', ud_name = ''Acme Corporation'',
                      ud_subscription_plan = Pro, ud_note_limit = - 1, ud_upgraded_at = None\<rparr>\<rparr>, db_pro) \<and>
   upgradeSubscription ''acme'' 102 10 60 (snd (upgradeSubscription ''acme'' 102 10 50 db_pro)) =
     upgradeSubscription ''acme'' 102 10 50 db_pro"
proof -
  have h: "find (\<lambda>u. u_id u = 102 \<and> u_tenant_id u = 10 \<and> u_role u = Admin \<and> u_is_active u) (Users db_pro)
     = Some admin_acme"
    "find (\<lambda>t. slug t = toLowerCase (trim ''acme'')) (Tenants db_pro) = Some acme_pro"
    "t_id acme_pro = 10" "subscription_plan acme_pro = Pro"
    "slug acme_pro = ''acme''" "name acme_pro = ''Acme Corporation''"
    by (simp_all add: quota_defs ex_defs toLowerCase_def lower_char_def upper_letters_def
        lower_letters_def)
  have e: "upgradeSubscription ''acme'' 102 10 50 db_pro =
     (Inr \<lparr>ur_message = ALREADY_PRO,
           ur_data = \<lparr>ud_id = 10, ud_slug = ''acme'', ud_name = ''Acme Corporation'',
                      ud_subscription_plan = Pro, ud_note_limit = - 1, ud_upgraded_at = None\<rparr>\<rparr>, db_pro)"
    by (simp add: upgradeSubscription_def quota_defs ex_defs toLowerCase_def lower_char_def
        upper_letters_def lower_letters_def)
  from upgrade_idempotent[of 102 10 db_pro admin_acme "''acme''" acme_pro 50 60] h(1-4)
  have again: "upgradeSubscription ''acme'' 102 10 60 (snd (upgradeSubscription ''acme'' 102 10 50 db_pro)) =
     upgradeSubscription ''acme'' 102 10 50 db_pro"
    by blast
  show ?thesis using h(1-4) e again by blast
qed

text \<open>
  An upgrade of a tenant that is not yet on the pro plan goes through \<open>upgradeToPro\<close>,
  which sets \<open>note_limit\<close> to \<open>-1\<close> and saves; the \<open>min\<close> validator of that path
  rejects the document, so nothing is stored.
\<close>

lemma upgradeToPro_rejected:
  "upgradeToPro t now ts = Inl (ValidationError ''Note limit cannot be negative'')"
  by (simp add: upgradeToPro_def Tenant_save_def)

section \<open>Errors of authentication\<close>

text \<open>
  C7, as the code has it. An absent or empty authorization header is answered with
  \<open>Access token is required\<close>. A header that is present but does not start with
  \<open>'Bearer '\<close> is answered with \<open>Invalid or expired token\<close>, the same answer as for a
  bearer token that fails verification. The two messages differ.
\<close>

theorem auth_errors:
  "(authHeader = None \<or> authHeader = Some [] \<longrightarrow>
      authenticate verifyToken authHeader d = Rejected 401 TOKEN_REQUIRED) \<and>
   (authHeader = Some h \<longrightarrow> h \<noteq> [] \<longrightarrow> take 7 h \<noteq> ''Bearer '' \<longrightarrow>
      authenticate verifyToken authHeader d = Rejected 401 TOKEN_INVALID) \<and>
   (authHeader = Some (''Bearer '' @ token) \<longrightarrow> verifyToken token = None \<longrightarrow>
      authenticate verifyToken authHeader d = Rejected 401 TOKEN_INVALID) \<and>
   TOKEN_REQUIRED \<noteq> TOKEN_INVALID"
proof (intro conjI impI)
  assume "authHeader = None \<or> authHeader = Some []"
  then show "authenticate verifyToken authHeader d = Rejected 401 TOKEN_REQUIRED"
    by (auto simp: authenticate_def)
next
  assume "authHeader = Some h" "h \<noteq> []" "take 7 h \<noteq> ''Bearer ''"
  then have "extractTokenFromHeader authHeader = Inl (Error ''No valid authorization header found'')"
    by (simp add: extractTokenFromHeader_def)
  with \<open>authHeader = Some h\<close> \<open>h \<noteq> []\<close>
  show "authenticate verifyToken authHeader d = Rejected 401 TOKEN_INVALID"
    by (simp add: authenticate_def)
next
  assume b: "authHeader = Some (''Bearer '' @ token)" and v: "verifyToken token = None"
  then have "extractTokenFromHeader authHeader = Inr token"
    by (simp add: extractTokenFromHeader_def)
  with b v show "authenticate verifyToken authHeader d = Rejected 401 TOKEN_INVALID"
    by (simp add: authenticate_def)
next
  show "TOKEN_REQUIRED \<noteq> TOKEN_INVALID"
    by (simp add: TOKEN_REQUIRED_def TOKEN_INVALID_def)
qed

theorem auth_errors_witness:
  "authenticate reject_all None db_full = Rejected 401 TOKEN_REQUIRED \<and>
   take 7 ''Basic YWJj'' \<noteq> ''Bearer '' \<and>
   authenticate reject_all (Some ''Basic YWJj'') db_full = Rejected 401 TOKEN_INVALID \<and>
   reject_all ''abc'' = None \<and>
   authenticate reject_all (Some ''Bearer abc'') db_full = Rejected 401 TOKEN_INVALID"
  using auth_errors[of None reject_all db_full]
    auth_errors[of "Some ''Basic YWJj''" reject_all db_full "''Basic YWJj''"]
    auth_errors[of "Some ''Bearer abc''" reject_all db_full _ "''abc''"]
  by (simp add: reject_all_def)

text \<open>
  The claim that a header without the bearer scheme fails with the missing-token error
  fails: \<open>Basic YWJj\<close> is answered with the invalid-token message.
\<close>

theorem auth_errors_counterexample:
  "authenticate reject_all (Some ''Basic YWJj'') db_full = Rejected 401 TOKEN_INVALID \<and>
   Rejected 401 TOKEN_INVALID \<noteq> Rejected 401 TOKEN_REQUIRED"
  by (simp add: authenticate_def extractTokenFromHeader_def TOKEN_REQUIRED_def TOKEN_INVALID_def)

section \<open>Uniqueness of emails\<close>

lemma distinct_with_key:
  "distinct (map f xs) \<Longrightarrow> distinct (map (\<lambda>x. (g x, f x)) xs)"
  by (induction xs) (auto simp: image_iff)

lemma User_indexes_ok_iff:
  "User_indexes_ok us \<longleftrightarrow> distinct (map u_id us) \<and> distinct (map email us)"
  by (auto simp: User_indexes_ok_def distinct_with_key)

lemma User_insert_ok:
  assumes "User_indexes_ok us" "User_insert doc us = Inr us'"
  shows "User_indexes_ok us'"
  using assms
  by (auto simp: User_insert_def User_indexes_ok_def Let_def split: if_splits)

lemma seed_upsert_ok:
  assumes "User_indexes_ok us" "seed_upsert userData newId us = Inr us'"
  shows "User_indexes_ok us'"
proof -
  let ?q = "\<lambda>u. email u = cast_email (s_email userData)"
  let ?f = "\<lambda>u. u\<lparr>u_tenant_id := s_tenant_id userData, email := cast_email (s_email userData),
                    password_hash := s_password_hash userData, u_role := s_role userData\<rparr>"
  obtain y ys where fu: "findOneAndUpdate ?q ?f us = (y, ys)"
    by (cases "findOneAndUpdate ?q ?f us")
  show ?thesis
  proof (cases y)
    case None
    with assms(2) fu have "User_insert \<lparr>u_id = newId, u_tenant_id = s_tenant_id userData,
        email = s_email userData, password_hash = s_password_hash userData, u_role = s_role userData,
        u_is_active = True, last_login = None\<rparr> us = Inr us'"
      by (simp add: seed_upsert_def)
    with assms(1) show ?thesis by (rule User_insert_ok)
  next
    case (Some u)
    with assms(2) fu have us': "us' = snd (findOneAndUpdate ?q ?f us)"
      by (simp add: seed_upsert_def)
    have "map u_id us' = map u_id us" "map email us' = map email us"
      unfolding us' by (rule findOneAndUpdate_map; simp)+
    with assms(1) show ?thesis by (simp add: User_indexes_ok_iff)
  qed
qed

lemma login_ok:
  assumes "User_indexes_ok (Users d)" "login cmp gen e p now d = (r, d')"
  shows "User_indexes_ok (Users d')"
proof (cases "Users d' = Users d")
  case True
  with assms(1) show ?thesis by simp
next
  case False
  with assms(2) obtain i where "Users d' = snd (findOneAndUpdate (\<lambda>x. u_id x = i)
      (\<lambda>x. x\<lparr>last_login := Some now\<rparr>) (Users d))"
    by (auto simp: login_def split: option.splits if_splits)
  then have "map u_id (Users d') = map u_id (Users d)" "map email (Users d') = map email (Users d)"
    by (simp_all add: findOneAndUpdate_map)
  with assms(1) show ?thesis by (simp add: User_indexes_ok_iff)
qed

lemma reachable_users_ok: "reachable_users us \<Longrightarrow> User_indexes_ok us"
proof (induction rule: reachable_users.induct)
  case start
  show ?case by (simp add: User_indexes_ok_def)
next
  case (seeded us userData newId us')
  then show ?case using seed_upsert_ok by blast
next
  case (logged_in d cmp gen e p now r d')
  then show ?case using login_ok by blast
qed

lemma at_most_one_by_key:
  "distinct (map f xs) \<Longrightarrow> length (filter (\<lambda>x. f x = k \<and> P x) xs) \<le> 1"
proof (induction xs)
  case Nil
  show ?case by simp
next
  case (Cons x xs)
  show ?case
  proof (cases "f x = k")
    case True
    with Cons.prems have "\<forall>y \<in> set xs. f y \<noteq> k" by (auto simp: image_iff)
    then have "filter (\<lambda>x. f x = k \<and> P x) xs = []" by (simp add: filter_empty_conv)
    then show ?thesis by simp
  next
    case False
    with Cons show ?thesis by simp
  qed
qed

lemmas user_defs = seed_upsert_def User_insert_def cast_email_def toLowerCase_def lower_char_def
      upper_letters_def lower_letters_def
  seed_admin_acme_def seed_admin_globex_def seed_acme_again_def admin_acme_def admin_globex_def

lemma seed_1: "seed_upsert seed_admin_acme 102 [] = Inr [admin_acme]"
  by (simp add: user_defs trim_def is_space_def whitespace_def)

lemma seed_2: "seed_upsert seed_admin_globex 201 [admin_acme] = Inr [admin_acme, admin_globex]"
  by (simp add: user_defs trim_def is_space_def whitespace_def)


text \<open>
  C10. In every users collection the seed writes and logins can produce, the emails
  are pairwise different: two users with different ids have different emails, in
  whatever tenants they are. So the lookup of \<open>login\<close>, by email and \<open>is_active\<close> alone,
  matches at most one account.
\<close>

theorem emails_globally_unique:
  "reachable_users us \<longrightarrow>
     distinct (map email us) \<and>
     (\<forall>a \<in> set us. \<forall>b \<in> set us. u_id a \<noteq> u_id b \<longrightarrow> email a \<noteq> email b) \<and>
     length (filter (\<lambda>u. email u = cast_email (toLowerCase e) \<and> u_is_active u) us) \<le> 1"
proof (intro impI conjI ballI)
  assume "reachable_users us"
  then have ok: "User_indexes_ok us" by (rule reachable_users_ok)
  then show d: "distinct (map email us)" by (simp add: User_indexes_ok_def)
  then show "length (filter (\<lambda>u. email u = cast_email (toLowerCase e) \<and> u_is_active u) us) \<le> 1"
    by (rule at_most_one_by_key)
  fix a b assume ab: "a \<in> set us" "b \<in> set us" "u_id a \<noteq> u_id b"
  show "email a \<noteq> email b"
  proof
    assume "email a = email b"
    with d ab(1,2) have "a = b" using key_unique[of email us b a] by simp
    with ab(3) show False by simp
  qed
qed

theorem emails_globally_unique_witness:
  "reachable_users [admin_acme, admin_globex] \<and>
   u_id admin_acme \<noteq> u_id admin_globex \<and>
   u_tenant_id admin_acme \<noteq> u_tenant_id admin_globex \<and>
   email admin_acme \<noteq> email admin_globex \<and>
   length (filter (\<lambda>u. email u = cast_email (toLowerCase ''Admin@Acme.test'') \<and> u_is_active u)
     [admin_acme, admin_globex]) \<le> 1 \<and>
   User_insert (admin_acme\<lparr>u_id := 300, u_tenant_id := 20\<rparr>) [admin_acme, admin_globex] =
     Inl (MongoServerError ''E11000 duplicate key error'') \<and>
   seed_upsert seed_acme_again 300 [admin_acme, admin_globex] =
     Inr [admin_acme\<lparr>u_tenant_id := 20, password_hash := ''h4'', u_role := Member\<rparr>, admin_globex]"
proof -
  have r: "reachable_users [admin_acme, admin_globex]"
    using reachable_users.seeded[OF reachable_users.seeded[OF reachable_users.start seed_1] seed_2] .
  have i: "admin_acme \<in> set [admin_acme, admin_globex]" "admin_globex \<in> set [admin_acme, admin_globex]"
    "u_id admin_acme \<noteq> u_id admin_globex" "u_tenant_id admin_acme \<noteq> u_tenant_id admin_globex"
    by (simp_all add: admin_acme_def admin_globex_def)
  from emails_globally_unique[of "[admin_acme, admin_globex]" "''Admin@Acme.test''"] r
  have u: "\<forall>a \<in> set [admin_acme, admin_globex]. \<forall>b \<in> set [admin_acme, admin_globex].
             u_id a \<noteq> u_id b \<longrightarrow> email a \<noteq> email b"
    and l: "length (filter (\<lambda>u. email u = cast_email (toLowerCase ''Admin@Acme.test'') \<and> u_is_active u)
     [admin_acme, admin_globex]) \<le> 1"
    by blast+
  from u i(1-3) have e: "email admin_acme \<noteq> email admin_globex" by blast
  have x: "User_insert (admin_acme\<lparr>u_id := 300, u_tenant_id := 20\<rparr>) [admin_acme, admin_globex] =
     Inl (MongoServerError ''E11000 duplicate key error'')"
    by (simp add: user_defs trim_def is_space_def whitespace_def)
  have y: "seed_upsert seed_acme_again 300 [admin_acme, admin_globex] =
     Inr [admin_acme\<lparr>u_tenant_id := 20, password_hash := ''h4'', u_role := Member\<rparr>, admin_globex]"
    by (simp add: user_defs trim_def is_space_def whitespace_def)
  show ?thesis using r i(3,4) e l x y by blast
qed

end
